theory Spec2Isabelle
  imports Main
begin

section \<open>Python values, text and dictionaries\<close>

text \<open>
  The values an option of the worker command resolves to. \<open>PyObject s\<close> is any other
  object with default truthiness, such as the pool class, given by the text \<open>s\<close> that
  \<open>str()\<close> and \<open>repr()\<close> return for it. Floating point values are outside the model.
\<close>

datatype py_value =
    PyNone
  | PyBool bool
  | PyInt int
  | PyStr string
  | PyTuple "py_value list"
  | PyList "py_value list"
  | PyObject string

text \<open>
  The exceptions that occur. \<open>BadParameter\<close> and \<open>UsageError\<close> are click's usage errors
  (\<open>ParamType.fail\<close> raises the former); \<open>AttributeError t a\<close> is the failed lookup of
  attribute \<open>a\<close> on an object of type \<open>t\<close>. \<open>KeyboardInterrupt\<close> and \<open>SystemExit\<close> derive
  from \<open>BaseException\<close> only, so \<open>except Exception\<close> does not catch them.
\<close>

datatype py_exception =
    BadParameter string
  | UsageError string
  | AttributeError string string
  | KeyError string
  | ValueError string
  | TypeError string
  | RuntimeError string
  | FileNotFoundError string
  | PermissionError string
  | OSError string
  | KeyboardInterrupt
  | SystemExit int

fun is_Exception :: "py_exception \<Rightarrow> bool" where
  "is_Exception KeyboardInterrupt = False"
| "is_Exception (SystemExit _) = False"
| "is_Exception _ = True"

text \<open>How a call ends: it returns, it raises, or the process image has been replaced.\<close>

datatype 'a outcome = Returned 'a | Raised py_exception | Replaced

subsection \<open>Text\<close>

definition backslash :: char where
  "backslash = CHR 0x5C"

definition squote :: char where
  "squote = CHR 0x27"

definition dquote :: char where
  "dquote = CHR 0x22"

definition is_digit :: "char \<Rightarrow> bool" where
  "is_digit c = (c \<in> set ''0123456789'')"

definition digit_val :: "char \<Rightarrow> nat" where
  "digit_val c = length (takeWhile (\<lambda>d. d \<noteq> c) ''0123456789'')"

text \<open>The ASCII whitespace that \<open>int()\<close> skips: space, tab, LF, VT, FF, CR.\<close>

definition is_space :: "char \<Rightarrow> bool" where
  "is_space c = (c \<in> set [CHR 0x20, CHR 0x09, CHR 0x0A, CHR 0x0B, CHR 0x0C, CHR 0x0D])"

definition strip :: "string \<Rightarrow> string" where
  "strip s = rev (dropWhile is_space (rev (dropWhile is_space s)))"

text \<open>
  The digits of a decimal literal: an underscore is accepted between two digits only.
\<close>

fun parse_digits :: "string \<Rightarrow> nat \<Rightarrow> nat option" where
  "parse_digits [] acc = Some acc"
| "parse_digits (c # cs) acc =
     (if is_digit c then parse_digits cs (acc * 10 + digit_val c)
      else if c = CHR ''_'' then
        (case cs of
           [] \<Rightarrow> None
         | d # _ \<Rightarrow> if is_digit d then parse_digits cs acc else None)
      else None)"

definition parse_literal :: "string \<Rightarrow> nat option" where
  "parse_literal s =
     (case s of
        [] \<Rightarrow> None
      | c # _ \<Rightarrow> if is_digit c then parse_digits s 0 else None)"

text \<open>
  \<open>int(s)\<close> of Python on ASCII text, base ten: surrounding whitespace is dropped, one sign
  is allowed, then a decimal literal. \<open>None\<close> stands for the \<open>ValueError\<close> it raises.
\<close>

definition py_int :: "string \<Rightarrow> int option" where
  "py_int s =
     (case strip s of
        [] \<Rightarrow> None
      | c # cs \<Rightarrow>
          if c = CHR ''-'' then map_option (\<lambda>n. - int n) (parse_literal cs)
          else if c = CHR ''+'' then map_option int (parse_literal cs)
          else map_option int (parse_literal (c # cs)))"

fun str_nat :: "nat \<Rightarrow> string" where
  "str_nat n =
     (if n < 10 then [''0123456789'' ! n]
      else str_nat (n div 10) @ [''0123456789'' ! (n mod 10)])"

declare str_nat.simps [simp del]

definition str_int :: "int \<Rightarrow> string" where
  "str_int i = (if i < 0 then CHR ''-'' # str_nat (nat (- i)) else str_nat (nat i))"

text \<open>\<open>sep.join(xs)\<close>.\<close>

fun py_join :: "string \<Rightarrow> string list \<Rightarrow> string" where
  "py_join sep [] = []"
| "py_join sep [x] = x"
| "py_join sep (x # y # ys) = x @ sep @ py_join sep (y # ys)"

text \<open>\<open>s.split(',')\<close>: the pieces between the commas, at least one piece.\<close>

fun split_comma :: "string \<Rightarrow> string list" where
  "split_comma [] = [Nil]"
| "split_comma (c # cs) =
     (if c = CHR '','' then [] # split_comma cs
      else (case split_comma cs of
              [] \<Rightarrow> [c # Nil]
            | t # ts \<Rightarrow> (c # t) # ts))"

text \<open>
  \<open>repr(s)\<close> of a string of ASCII text: single quotes unless the text has a single quote
  and no double quote; the quote and the backslash are escaped, tab, LF and CR have their
  letters, every other character outside the printable range is written \<open>\xNN\<close>.
\<close>

definition hex2 :: "nat \<Rightarrow> string" where
  "hex2 n = [''0123456789abcdef'' ! (n div 16 mod 16), ''0123456789abcdef'' ! (n mod 16)]"

definition repr_char :: "char \<Rightarrow> char \<Rightarrow> string" where
  "repr_char q c =
     (if c = q \<or> c = backslash then [backslash, c]
      else if c = CHR 0x09 then [backslash, CHR ''t'']
      else if c = CHR 0x0A then [backslash, CHR ''n'']
      else if c = CHR 0x0D then [backslash, CHR ''r'']
      else if (of_char c :: nat) < 32 \<or> 127 \<le> (of_char c :: nat)
        then backslash # CHR ''x'' # hex2 (of_char c)
      else [c])"

definition py_repr_str :: "string \<Rightarrow> string" where
  "py_repr_str s =
     (let q = (if squote \<in> set s \<and> dquote \<notin> set s then dquote else squote)
      in q # concat (map (repr_char q) s) @ [q])"

text \<open>
  \<open>repr(value)\<close>: a tuple of one element is written with a comma after it.
\<close>

fun py_repr :: "py_value \<Rightarrow> string" where
  "py_repr PyNone = ''None''"
| "py_repr (PyBool b) = (if b then ''True'' else ''False'')"
| "py_repr (PyInt i) = str_int i"
| "py_repr (PyStr s) = py_repr_str s"
| "py_repr (PyTuple vs) =
     (case map py_repr vs of
        [r] \<Rightarrow> ''('' @ r @ '',)''
      | rs \<Rightarrow> ''('' @ py_join '', '' rs @ '')'')"
| "py_repr (PyList vs) = ''['' @ py_join '', '' (map py_repr vs) @ '']''"
| "py_repr (PyObject s) = s"

text \<open>\<open>str(value)\<close>: the text itself for a text, the \<open>repr\<close> otherwise.\<close>

definition py_str :: "py_value \<Rightarrow> string" where
  "py_str v = (case v of PyStr s \<Rightarrow> s | _ \<Rightarrow> py_repr v)"

text \<open>The truth value of an object in a condition.\<close>

fun truthy :: "py_value \<Rightarrow> bool" where
  "truthy PyNone = False"
| "truthy (PyBool b) = b"
| "truthy (PyInt i) = (i \<noteq> 0)"
| "truthy (PyStr s) = (s \<noteq> [])"
| "truthy (PyTuple xs) = (xs \<noteq> [])"
| "truthy (PyList xs) = (xs \<noteq> [])"
| "truthy (PyObject s) = True"

subsection \<open>Dictionaries\<close>

text \<open>
  A \<open>dict\<close> keeps its keys in insertion order, so it is a list of pairs with one pair
  for a key. Storing under a key that is present keeps the key's place; a new key goes
  to the end.
\<close>

type_synonym 'v dict = "(string \<times> 'v) list"

definition dict_get :: "'v dict \<Rightarrow> string \<Rightarrow> 'v option" where
  "dict_get d k = map_of d k"

fun dict_setitem :: "'v dict \<Rightarrow> string \<Rightarrow> 'v \<Rightarrow> 'v dict" where
  "dict_setitem [] k v = [(k, v)]"
| "dict_setitem ((k', v') # d) k v =
     (if k' = k then (k, v) # d else (k', v') # dict_setitem d k v)"

text \<open>\<open>d.update(e)\<close>: every item of \<open>e\<close> is stored in \<open>d\<close>, in the order of \<open>e\<close>.\<close>

fun dict_update :: "'v dict \<Rightarrow> 'v dict \<Rightarrow> 'v dict" where
  "dict_update d [] = d"
| "dict_update d ((k, v) # e) = dict_update (dict_setitem d k v) e"

text \<open>\<open>d.pop(k)\<close>: the value and the dictionary without the key, or \<open>KeyError\<close>.\<close>

definition dict_pop :: "'v dict \<Rightarrow> string \<Rightarrow> py_exception + ('v \<times> 'v dict)" where
  "dict_pop d k =
     (case map_of d k of
        None \<Rightarrow> Inl (KeyError k)
      | Some v \<Rightarrow> Inr (v, filter (\<lambda>p. fst p \<noteq> k) d))"

section \<open>The parameter types\<close>

text \<open>
  \<open>CeleryBeat.convert\<close>: the \<open>-B\<close> flag is refused on Windows.
  The first argument is \<open>ctx.obj.app.IS_WINDOWS\<close>.
\<close>

definition CeleryBeat_convert :: "bool \<Rightarrow> py_value \<Rightarrow> py_exception + py_value" where
  "CeleryBeat_convert is_windows v =
     (if is_windows \<and> truthy v
      then Inl (BadParameter
        (''-B option does not work on Windows.  '' @
         ''Please run celery beat as a separate service.''))
      else Inr v)"

text \<open>
  \<open>Autoscale.convert\<close>. With one piece the value becomes the pair of its integer and
  0 and then runs through the same sorting as two pieces do. With two pieces the handler
  of the \<open>ValueError\<close> evaluates \<open>value.join(',')\<close> on the list of pieces, and a list
  has no \<open>join\<close>: building the message raises \<open>AttributeError\<close>.
\<close>

definition Autoscale_convert :: "string \<Rightarrow> py_exception + int list" where
  "Autoscale_convert raw =
     (let v = split_comma raw in
      if length v > 2 then
        Inl (BadParameter
          (''Expected two comma separated integers or one integer.'' @
           ''Got '' @ str_nat (length v) @ '' instead.''))
      else if length v = 1 then
        (case py_int (v ! 0) of
           None \<Rightarrow> Inl (BadParameter
             (''Expected an integer. Got '' @ py_str (PyList (map PyStr v)) @ '' instead.''))
         | Some n \<Rightarrow> Inr (rev (sort [n, 0])))
      else
        (case those (map py_int v) of
           None \<Rightarrow> Inl (AttributeError ''list'' ''join'')
         | Some ns \<Rightarrow> Inr (rev (sort ns))))"

section \<open>The process and what lies outside the module\<close>

text \<open>
  What the process does to the outside is kept as a trace of events, in order:
  \<^item> \<open>Detached logfile pidfile uid gid umask workdir fake\<close>: the call of
    \<open>celery.platforms.detached\<close> with these arguments and entering its context;
  \<^item> \<open>DetachedExit\<close>: leaving that context;
  \<^item> \<open>Execv path args\<close>: the call \<open>os.execv(path, args)\<close>;
  \<^item> \<open>SetupLogging app level logfile hostname\<close>: the call
    \<open>app.log.setup_logging_subsystem(level, logfile, hostname=hostname)\<close>;
  \<^item> \<open>LogCritical format argument exc\<close>: \<open>logger.critical(format, argument,
    exc_info=True)\<close> while the exception \<open>exc\<close> is being handled;
  \<^item> \<open>ConfigFromCmdline args\<close>, \<open>DropPrivileges uid gid\<close>, \<open>WorkerCreated keywords\<close>,
    \<open>WorkerStart\<close>: the calls of \<open>app.config_from_cmdline\<close>, \<open>maybe_drop_privileges\<close>,
    \<open>app.Worker\<close> and \<open>worker.start\<close>.
\<close>

datatype event =
    Detached py_value py_value py_value py_value py_value py_value py_value
  | DetachedExit
  | Execv string "string list"
  | SetupLogging string string py_value py_value
  | LogCritical string string py_exception
  | ConfigFromCmdline "string list"
  | DropPrivileges py_value py_value
  | WorkerCreated "(string \<times> py_value) list"
  | WorkerStart

text \<open>
  What \<open>os.execv\<close> does: it replaces the process image and never returns, or it raises.
  It returns only where a test harness has put a stub in its place.
\<close>

datatype exec_result = ExecReplaces | ExecRaises py_exception | ExecReturns

text \<open>
  The functions and constants used by the module and defined outside it are parameters:
  the exit status \<open>EX_FAILURE\<close> of \<open>celery.platforms\<close>, \<open>sys.executable\<close>, the current
  application, \<open>os.execv\<close>, \<open>celery.platforms.detached\<close> (the exception it raises, if
  any, when called and entered as the event says), \<open>app.config_from_cmdline\<close>,
  \<open>node_format\<close> and the exit code of the started worker. The second parse of click,
  over the unconsumed arguments with the registered options, is a parameter of \<open>worker\<close>
  below. The calls into logging, privilege dropping and the worker are taken to return.
\<close>

record externals =
  EX_FAILURE :: int
  sys_executable :: string
  current_app :: string
  execv :: "string \<Rightarrow> string list \<Rightarrow> exec_result"
  detached :: "event \<Rightarrow> py_exception option"
  config_from_cmdline :: "string list \<Rightarrow> py_exception option"
  node_format :: "py_value \<Rightarrow> py_value \<Rightarrow> py_value"
  worker_exitcode :: py_value

text \<open>
  The process: its environment, the module global \<open>C_FAKEFORK\<close> and the trace.
\<close>

record process =
  environ :: "string \<Rightarrow> string option"
  C_FAKEFORK :: "string option"
  trace :: "event list"

definition emit :: "event \<Rightarrow> process \<Rightarrow> process" where
  "emit ev p = p\<lparr>trace := trace p @ [ev]\<rparr>"

text \<open>
  Importing the module runs \<open>C_FAKEFORK = os.environ.get('C_FAKEFORK')\<close>.
\<close>

definition import_module :: "process \<Rightarrow> process" where
  "import_module p = p\<lparr>C_FAKEFORK := environ p ''C_FAKEFORK''\<rparr>"

text \<open>\<open>os.environ[k] = v\<close> and \<open>del os.environ[k]\<close>.\<close>

definition setenv :: "string \<Rightarrow> string \<Rightarrow> process \<Rightarrow> process" where
  "setenv k v p = p\<lparr>environ := (environ p)(k := Some v)\<rparr>"

definition unsetenv :: "string \<Rightarrow> process \<Rightarrow> process" where
  "unsetenv k p = p\<lparr>environ := (environ p)(k := None)\<rparr>"

text \<open>The truth value of the module global: a text that is not empty.\<close>

definition fakefork :: "process \<Rightarrow> bool" where
  "fakefork p = (case C_FAKEFORK p of None \<Rightarrow> False | Some s \<Rightarrow> s \<noteq> [])"

section \<open>The daemonizer\<close>

record daemon_args =
  logfile :: py_value
  pidfile :: py_value
  uid :: py_value
  gid :: py_value
  hostname :: py_value

record detach_args = daemon_args +
  path :: string
  argv :: "string list"
  umask :: py_value
  workdir :: py_value
  fake :: py_value
  app :: "string option"
  executable :: "string option"

text \<open>
  \<open>detach\<close>. The \<open>return EX_FAILURE\<close> stands after the \<open>try\<close> statement, inside the
  \<open>with\<close> block: it is reached after the handler and after an \<open>execv\<close> that returned.
\<close>

definition detach :: "externals \<Rightarrow> detach_args \<Rightarrow> process \<Rightarrow> int outcome \<times> process" where
  "detach X a p =
     (let fake' = (if fakefork p then PyInt 1 else fake a);
          enter = Detached (logfile a) (pidfile a) (uid a) (gid a) (umask a) (workdir a) fake';
          p1 = emit enter p
      in case detached X enter of
           Some e \<Rightarrow> (Raised e, p1)
         | None \<Rightarrow>
             (let path' = (case executable a of None \<Rightarrow> path a | Some x \<Rightarrow> x);
                  p2 = emit (Execv path' (path' # argv a)) p1
              in case execv X path' (path' # argv a) of
                   ExecReplaces \<Rightarrow> (Replaced, p2)
                 | ExecReturns \<Rightarrow> (Returned (EX_FAILURE X), emit DetachedExit p2)
                 | ExecRaises e \<Rightarrow>
                     if is_Exception e then
                       (let app' = (case app a of None \<Rightarrow> current_app X | Some x \<Rightarrow> x);
                            p3 = emit (SetupLogging app' ''ERROR'' (logfile a) (hostname a)) p2;
                            p4 = emit (LogCritical (''Can'' @ [squote] @ ''t exec %r'')
                                         (py_join '' '' (path' # argv a)) e) p3
                        in (Returned (EX_FAILURE X), emit DetachedExit p4))
                     else (Raised e, emit DetachedExit p2)))"

section \<open>The worker command\<close>

record click_context =
  params :: "py_value dict"
  args :: "string list"
  obj_app :: string
  IS_WINDOWS :: bool
  user_opts :: "string list"
  obj_workdir :: py_value
  obj_no_color :: py_value

record worker_args = daemon_args +
  pool_cls :: py_value
  loglevel :: py_value
  statedb :: py_value
  user_extra_params :: py_value
  kwargs :: "py_value dict"

text \<open>
  \<open>list(user_extra_params)\<close>: the unconsumed arguments are a tuple of texts.
\<close>

fun texts :: "py_value \<Rightarrow> string list" where
  "texts (PyTuple vs) = map py_str vs"
| "texts (PyList vs) = map py_str vs"
| "texts _ = []"

text \<open>
  The parse of click's \<open>Command.parse_args(ctx, args)\<close> with the registered options
  (\<open>user_opts\<close>, the names of \<open>app.user_options['worker']\<close>): it raises, or it calls the
  callback of the options in order, each time with an option's name and value, and
  leaves the context as the second component says (click stores values and the
  arguments left over in the context it is given).
\<close>

type_synonym 'c user_parse =
  "string list \<Rightarrow> 'c \<Rightarrow> string list \<Rightarrow> py_exception + ((string \<times> py_value) list \<times> 'c)"

text \<open>
  The options registered by the caller: when there are any, the unconsumed arguments are
  parsed with them, the callback stores each value under the option's name in
  \<open>user_options\<close>, and \<open>kwargs.update(user_options)\<close> follows. The result is \<open>kwargs\<close>
  and the context after the parse.
\<close>

definition extend_kwargs ::
  "click_context user_parse \<Rightarrow> click_context \<Rightarrow> worker_args \<Rightarrow>
     py_exception + (py_value dict \<times> click_context)" where
  "extend_kwargs parse_args ctx w =
     (if user_opts ctx \<noteq> [] then
        (case parse_args (user_opts ctx) ctx (texts (user_extra_params w)) of
           Inl e \<Rightarrow> Inl e
         | Inr (calls, ctx') \<Rightarrow>
             Inr (dict_update (kwargs w) (dict_update [] calls), ctx'))
      else Inr (kwargs w, ctx))"

text \<open>
  The configuration given after the options: \<open>KeyError\<close> and \<open>ValueError\<close> of
  \<open>config_from_cmdline\<close> become a usage error that carries \<open>str()\<close> of the exception
  (the \<open>repr\<close> of the key, the message of the \<open>ValueError\<close>).
\<close>

definition extra_config :: "externals \<Rightarrow> click_context \<Rightarrow> process \<Rightarrow> py_exception option \<times> process" where
  "extra_config X ctx p =
     (if args ctx \<noteq> [] then
        (let p1 = emit (ConfigFromCmdline (args ctx)) p
         in case config_from_cmdline X (args ctx) of
              None \<Rightarrow> (None, p1)
            | Some (KeyError k) \<Rightarrow>
                (Some (UsageError
                   (''Unable to parse extra configuration from command line.'' @ [CHR 0x0A] @
                    ''Reason: '' @ py_repr_str k)), p1)
            | Some (ValueError m) \<Rightarrow>
                (Some (UsageError
                   (''Unable to parse extra configuration from command line.'' @ [CHR 0x0A] @
                    ''Reason: '' @ m)), p1)
            | Some e \<Rightarrow> (Some e, p1))
      else (None, p))"

text \<open>
  The keys taken out of the copy of \<open>ctx.params\<close>, in the order of the source; the
  values of \<open>umask\<close> and \<open>executable\<close> are kept. A missing key raises \<open>KeyError\<close>.
\<close>

definition popped :: "'v dict \<Rightarrow> string \<Rightarrow> ('v \<Rightarrow> 'v dict \<Rightarrow> py_exception + 'b) \<Rightarrow> py_exception + 'b" where
  "popped d k f = (case dict_pop d k of Inl e \<Rightarrow> Inl e | Inr (v, d') \<Rightarrow> f v d')"

definition detach_params :: "py_value dict \<Rightarrow> py_exception + (py_value \<times> py_value \<times> py_value dict)" where
  "detach_params ps =
     popped ps ''detach'' (\<lambda>_ p1.
     popped p1 ''logfile'' (\<lambda>_ p2.
     popped p2 ''pidfile'' (\<lambda>_ p3.
     popped p3 ''uid'' (\<lambda>_ p4.
     popped p4 ''gid'' (\<lambda>_ p5.
     popped p5 ''umask'' (\<lambda>um p6.
     popped p6 ''hostname'' (\<lambda>_ p7.
     popped p7 ''executable'' (\<lambda>ex p8. Inr (um, ex, p8)))))))))"

text \<open>
  The body of the loop before its last statement: what one option adds to \<open>argv\<close>.
\<close>

fun isinstance_bool :: "py_value \<Rightarrow> bool" where
  "isinstance_bool (PyBool _) = True"
| "isinstance_bool _ = False"

definition encode_option :: "string list \<Rightarrow> string \<Rightarrow> py_value \<Rightarrow> string list" where
  "encode_option av arg v =
     (if isinstance_bool v \<and> truthy v then av @ [''--'' @ arg]
      else if v \<noteq> PyNone then av @ [''--'' @ arg] @ [py_str v]
      else av)"

text \<open>
  The loop over \<open>params.items()\<close>. The \<open>return detach(...)\<close> is the last statement of the
  loop's body: the first pass returns, with the \<open>argv\<close> it has built so far. An empty
  dictionary leaves the loop without a pass, and the plain \<open>return\<close> follows. The result
  is the \<open>argv\<close> handed to \<open>detach\<close>, if \<open>detach\<close> is called.
\<close>

fun encode_loop :: "py_value dict \<Rightarrow> string list \<Rightarrow> string list option" where
  "encode_loop [] av = None"
| "encode_loop ((arg, v) # rest) av = Some (encode_option av arg v)"

text \<open>
  The \<open>--executable\<close> option is a plain text option: its value is \<open>None\<close> or a text.
\<close>

fun opt_str :: "py_value \<Rightarrow> string option" where
  "opt_str (PyStr s) = Some s"
| "opt_str _ = None"

fun map_outcome :: "('a \<Rightarrow> 'b) \<Rightarrow> 'a outcome \<Rightarrow> 'b outcome" where
  "map_outcome f (Returned x) = Returned (f x)"
| "map_outcome f (Raised e) = Raised e"
| "map_outcome f Replaced = Replaced"

definition worker_detach :: "externals \<Rightarrow> click_context \<Rightarrow> worker_args \<Rightarrow> process \<Rightarrow> py_value outcome \<times> process" where
  "worker_detach X ctx w p =
     (case detach_params (params ctx) of
        Inl e \<Rightarrow> (Raised e, p)
      | Inr (um, ex, ps) \<Rightarrow>
          (case encode_loop ps [''-m'', ''celery'', ''worker''] of
             None \<Rightarrow> (Returned PyNone, p)
           | Some av \<Rightarrow>
               (case detach X
                       \<lparr>logfile = logfile w, pidfile = pidfile w, uid = uid w, gid = gid w,
                        hostname = hostname w, path = sys_executable X, argv = av,
                        umask = um, workdir = obj_workdir ctx, fake = PyBool False,
                        app = Some (obj_app ctx), executable = opt_str ex\<rparr> p of
                  (r, p') \<Rightarrow> (map_outcome PyInt r, p'))))"

text \<open>
  The run in the current process. A keyword given both by name and in \<open>kwargs\<close> is a
  \<open>TypeError\<close> of the call.
\<close>

definition worker_inline :: "externals \<Rightarrow> click_context \<Rightarrow> worker_args \<Rightarrow> py_value dict \<Rightarrow> process \<Rightarrow> py_value outcome \<times> process" where
  "worker_inline X ctx w kw p =
     (let p1 = emit (DropPrivileges (uid w) (gid w)) p;
          named = [(''hostname'', hostname w), (''pool_cls'', pool_cls w),
                   (''loglevel'', loglevel w), (''logfile'', logfile w),
                   (''pidfile'', node_format X (pidfile w) (hostname w)),
                   (''statedb'', node_format X (statedb w) (hostname w)),
                   (''no_color'', obj_no_color ctx)]
      in case filter (\<lambda>k. k \<in> set (map fst named)) (map fst kw) of
           k # _ \<Rightarrow> (Raised (TypeError k), p1)
         | [] \<Rightarrow> (Returned (worker_exitcode X),
                   emit WorkerStart (emit (WorkerCreated (named @ kw)) p1)))"

text \<open>\<open>worker\<close>, the body of the command.\<close>

definition worker ::
  "externals \<Rightarrow> click_context user_parse \<Rightarrow> click_context \<Rightarrow> worker_args \<Rightarrow> process \<Rightarrow>
     py_value outcome \<times> process" where
  "worker X parse_args ctx0 w p =
     (case extend_kwargs parse_args ctx0 w of
        Inl e \<Rightarrow> (Raised e, p)
      | Inr (kw, ctx) \<Rightarrow>
          (case extra_config X ctx p of
             (Some e, p1) \<Rightarrow> (Raised e, p1)
           | (None, p1) \<Rightarrow>
               if truthy (case dict_get kw ''detach'' of None \<Rightarrow> PyBool False | Some v \<Rightarrow> v)
               then worker_detach X ctx w p1
               else worker_inline X ctx w kw p1))"

text \<open>
  The call of the body by click, with \<open>ctx.params\<close> as its keyword arguments: the names
  that are parameters of \<open>worker\<close> are bound to them (a parameter without a keyword has
  its default \<open>None\<close>), the others gather in \<open>kwargs\<close>.
\<close>

definition keyword :: "py_value dict \<Rightarrow> string \<Rightarrow> py_value" where
  "keyword ps k = (case dict_get ps k of None \<Rightarrow> PyNone | Some v \<Rightarrow> v)"

definition call_args :: "py_value dict \<Rightarrow> worker_args" where
  "call_args ps =
     \<lparr>logfile = keyword ps ''logfile'', pidfile = keyword ps ''pidfile'',
      uid = keyword ps ''uid'', gid = keyword ps ''gid'',
      hostname = keyword ps ''hostname'', pool_cls = keyword ps ''pool_cls'',
      loglevel = keyword ps ''loglevel'', statedb = keyword ps ''statedb'',
      user_extra_params = keyword ps ''user_extra_params'',
      kwargs = filter (\<lambda>p. fst p \<notin> set [''hostname'', ''pool_cls'', ''uid'', ''gid'',
                 ''loglevel'', ''logfile'', ''pidfile'', ''statedb'', ''user_extra_params'']) ps\<rparr>"

text \<open>
  The command as click runs it, for the \<open>-B\<close> option: the value of the flag is converted
  by \<open>CELERY_BEAT\<close> while the command line is parsed and the result is stored under the
  name \<open>beat\<close> in \<open>ctx.params\<close>; the body is called afterwards. A failed conversion ends
  the command before the body is called.
\<close>

definition worker_command ::
  "externals \<Rightarrow> click_context user_parse \<Rightarrow> py_value \<Rightarrow> click_context \<Rightarrow> process \<Rightarrow>
     py_value outcome \<times> process" where
  "worker_command X parse_args beat ctx p =
     (case CeleryBeat_convert (IS_WINDOWS ctx) beat of
        Inl e \<Rightarrow> (Raised e, p)
      | Inr v \<Rightarrow>
          (let ctx' = ctx\<lparr>params := dict_setitem (params ctx) ''beat'' v\<rparr>
           in worker X parse_args ctx' (call_args (params ctx')) p))"

text \<open>The \<open>os.execv\<close> calls of a trace, in order.\<close>

fun execs :: "event list \<Rightarrow> (string \<times> string list) list" where
  "execs [] = []"
| "execs (Execv pth av # evs) = (pth, av) # execs evs"
| "execs (_ # evs) = execs evs"

section \<open>A concrete setting\<close>

text \<open>
  Surroundings for running the definitions on concrete command lines: an interpreter at
  \<open>/usr/bin/python3\<close> that \<open>os.execv\<close> does not find, a \<open>detached\<close> that enters its
  context, and a process started without \<open>C_FAKEFORK\<close> in its environment.
\<close>

definition demo_externals :: externals where
  "demo_externals =
     \<lparr>EX_FAILURE = 1, sys_executable = ''/usr/bin/python3'', current_app = ''default'',
      execv = (\<lambda>pth av. ExecRaises (FileNotFoundError pth)),
      detached = (\<lambda>ev. None),
      config_from_cmdline = (\<lambda>av. None),
      node_format = (\<lambda>v h. v),
      worker_exitcode = PyInt 0\<rparr>"

definition demo_process :: process where
  "demo_process = import_module \<lparr>environ = (\<lambda>k. None), C_FAKEFORK = None, trace = []\<rparr>"

definition class_repr :: "string \<Rightarrow> string" where
  "class_repr name = ''<class '' @ [squote] @ name @ [squote] @ ''>''"

text \<open>
  The options of the command in the order of their declaration, each with the value it
  resolves to when the command line does not give it. The options of the daemon commands
  (\<open>logfile\<close>, \<open>pidfile\<close>, \<open>uid\<close>, \<open>gid\<close>, \<open>umask\<close>, \<open>executable\<close>) are added by
  \<open>CeleryDaemonCommand\<close> after those of the decorators.
\<close>

definition option_defaults :: "py_value dict" where
  "option_defaults =
     [(''hostname'', PyStr ''celery@host''),
      (''detach'', PyBool False),
      (''statedb'', PyNone),
      (''loglevel'', PyInt 30),
      (''optimization'', PyStr ''default''),
      (''prefetch_multiplier'', PyInt 4),
      (''concurrency'', PyNone),
      (''pool'', PyObject (class_repr ''celery.concurrency.prefork.TaskPool'')),
      (''task_events'', PyBool False),
      (''time_limit'', PyNone),
      (''soft_time_limit'', PyNone),
      (''max_tasks_per_child'', PyNone),
      (''max_memory_per_child'', PyNone),
      (''purge'', PyBool False),
      (''queues'', PyNone),
      (''exclude_queues'', PyNone),
      (''include'', PyNone),
      (''without_gossip'', PyBool False),
      (''without_mingle'', PyBool False),
      (''without_heartbeat'', PyBool False),
      (''heartbeat_interval'', PyNone),
      (''autoscale'', PyNone),
      (''beat'', PyBool False),
      (''schedule_filename'', PyStr ''celerybeat-schedule''),
      (''scheduler'', PyNone),
      (''user_extra_params'', PyTuple []),
      (''logfile'', PyNone),
      (''pidfile'', PyNone),
      (''uid'', PyNone),
      (''gid'', PyNone),
      (''umask'', PyNone),
      (''executable'', PyNone)]"

text \<open>
  \<open>ctx.params\<close> as click fills it from the options a command line gives: the eager
  option \<open>pool\<close> is processed first, then the given options in their order on the
  command line, then the others in the order of their declaration.
\<close>

definition parsed_params :: "py_value dict \<Rightarrow> py_value dict" where
  "parsed_params given =
     (''pool'', (case dict_get given ''pool'' of
                   None \<Rightarrow> keyword option_defaults ''pool''
                 | Some v \<Rightarrow> v)) #
     filter (\<lambda>p. fst p \<noteq> ''pool'') given @
     filter (\<lambda>p. fst p \<noteq> ''pool'' \<and> fst p \<notin> set (map fst given)) option_defaults"

definition demo_context :: "py_value dict \<Rightarrow> click_context" where
  "demo_context ps =
     \<lparr>params = ps, args = [], obj_app = ''proj'', IS_WINDOWS = False, user_opts = [],
      obj_workdir = PyNone, obj_no_color = PyNone\<rparr>"

text \<open>\<open>celery worker --purge -D\<close>.\<close>

definition purge_detach_params :: "py_value dict" where
  "purge_detach_params = parsed_params [(''purge'', PyBool True), (''detach'', PyBool True)]"

text \<open>
  A \<open>ctx.params\<close> in which the flag \<open>purge\<close>, not set, is the first option left after the
  daemon's own keys are taken out.
\<close>

definition unset_flag_params :: "py_value dict" where
  "unset_flag_params =
     [(''detach'', PyBool True), (''logfile'', PyNone), (''pidfile'', PyNone),
      (''uid'', PyNone), (''gid'', PyNone), (''umask'', PyNone),
      (''hostname'', PyStr ''celery@host''), (''executable'', PyNone),
      (''purge'', PyBool False), (''loglevel'', PyInt 30)]"

text \<open>\<open>celery worker --autoscale=10,0 --pool=solo -D\<close>.\<close>

definition autoscale_solo_params :: "py_value dict" where
  "autoscale_solo_params =
     parsed_params
       [(''autoscale'', PyTuple [PyInt 10, PyInt 0]),
        (''pool'', PyObject (class_repr ''celery.concurrency.solo.TaskPool'')),
        (''detach'', PyBool True)]"

text \<open>
  A call of \<open>detach\<close> with the interpreter as path and no alternate executable, and a
  process whose environment has \<open>C_FAKEFORK=1\<close> when the module is imported.
\<close>

definition demo_detach_args :: detach_args where
  "demo_detach_args =
     \<lparr>logfile = PyNone, pidfile = PyNone, uid = PyNone, gid = PyNone,
      hostname = PyStr ''celery@host'', path = ''/usr/bin/python3'',
      argv = [''-m'', ''celery'', ''worker''], umask = PyNone, workdir = PyNone,
      fake = PyBool False, app = None, executable = None\<rparr>"

definition fakefork_process :: process where
  "fakefork_process =
     \<lparr>environ = (\<lambda>k. if k = ''C_FAKEFORK'' then Some ''1'' else None),
      C_FAKEFORK = None, trace = []\<rparr>"

text \<open>
  A command line \<open>celery worker --purge-all\<close> where the caller has registered one
  option, named \<open>purge\<close> like the static flag and written \<open>--purge-all\<close>: the first
  parse leaves the token unconsumed, the second gives the option the value \<open>True\<close>,
  stores it in the context and leaves no argument over.
\<close>

definition registered_params :: "py_value dict" where
  "registered_params =
     dict_setitem option_defaults ''user_extra_params'' (PyTuple [PyStr ''--purge-all''])"

definition registered_context :: click_context where
  "registered_context = (demo_context registered_params)\<lparr>user_opts := [''purge'']\<rparr>"

definition registered_parse :: "click_context user_parse" where
  "registered_parse opts ctx tail =
     (if opts = [''purge''] \<and> tail = [''--purge-all'']
      then Inr ([(''purge'', PyBool True)],
                ctx\<lparr>params := dict_setitem (params ctx) ''purge'' (PyBool True), args := []\<rparr>)
      else Inl (UsageError ''no such option''))"

text \<open>A command without registered options never runs the second parse.\<close>

definition no_parse :: "click_context user_parse" where
  "no_parse opts ctx tail = Inr ([], ctx)"

section \<open>Facts about the dictionary operations\<close>

lemma map_of_dict_setitem: "map_of (dict_setitem d k v) = (map_of d)(k \<mapsto> v)"
  by (induction d k v rule: dict_setitem.induct) auto

lemma map_of_dict_update: "map_of (dict_update d e) = map_of d ++ map_of (rev e)"
  by (induction d e rule: dict_update.induct)
     (auto simp: map_of_dict_setitem map_add_def fun_eq_iff split: option.splits)

lemma keys_dict_setitem: "set (map fst (dict_setitem d k v)) = insert k (set (map fst d))"
  by (induction d k v rule: dict_setitem.induct) auto

lemma distinct_dict_setitem:
  "distinct (map fst d) \<Longrightarrow> distinct (map fst (dict_setitem d k v))"
proof (induction d k v rule: dict_setitem.induct)
  case (1 k v)
  show ?case by simp
next
  case (2 k' v' d k v)
  have "k' \<noteq> k \<Longrightarrow> k' \<notin> set (map fst (dict_setitem d k v))"
    using 2 by (simp only: keys_dict_setitem) auto
  with 2 show ?case by auto
qed

lemma distinct_dict_update:
  "distinct (map fst d) \<Longrightarrow> distinct (map fst (dict_update d e))"
  by (induction d e rule: dict_update.induct) (auto simp: distinct_dict_setitem)

lemma map_of_rev_distinct: "distinct (map fst xs) \<Longrightarrow> map_of (rev xs) = map_of xs"
proof (induction xs)
  case Nil
  show ?case by simp
next
  case (Cons x xs)
  then have "map_of xs (fst x) = None"
    by (simp add: map_of_eq_None_iff)
  with Cons show ?case
    by (cases x) (auto simp: fun_eq_iff map_add_def split: option.splits)
qed

lemma map_of_merged:
  "map_of (dict_update d (dict_update [] calls)) = map_of d ++ map_of (rev calls)"
proof -
  have "distinct (map fst (dict_update ([] :: 'a dict) calls))"
    by (rule distinct_dict_update) simp
  then show ?thesis
    by (simp add: map_of_dict_update map_of_rev_distinct)
qed

lemma rev_sort_pair: "rev (sort [x, y :: int]) = [max x y, min x y]"
  by (auto simp: max_def min_def)

section \<open>The autoscale pair\<close>

text \<open>
  C5: an autoscale text of exactly two comma separated integers yields the pair of the
  larger and the smaller of the two, whatever their order in the text: the first element
  is never below the second, and \<open>5,10\<close> and \<open>10,5\<close> both give \<open>(10, 5)\<close>.
\<close>

theorem Autoscale_convert_two_integers:
  assumes "split_comma raw = [a, b]" and "py_int a = Some x" and "py_int b = Some y"
  shows "Autoscale_convert raw = Inr [max x y, min x y] \<and> min x y \<le> max x y \<and>
         Autoscale_convert ''5,10'' = Inr [10, 5] \<and>
         Autoscale_convert ''10,5'' = Inr [10, 5]"
proof -
  have general: "Autoscale_convert raw = Inr [max x y, min x y]"
    using assms by (simp add: Autoscale_convert_def rev_sort_pair del: sort_key_simps)
  have up: "Autoscale_convert ''5,10'' = Inr [10, 5]"
    by code_simp
  have down: "Autoscale_convert ''10,5'' = Inr [10, 5]"
    by code_simp
  from general up down show ?thesis by simp
qed

theorem Autoscale_convert_two_integers_witness:
  "split_comma ''3,8'' = [''3'', ''8''] \<and> py_int ''3'' = Some 3 \<and> py_int ''8'' = Some 8 \<and>
   Autoscale_convert ''3,8'' = Inr [8, 3]"
proof -
  have pieces: "split_comma ''3,8'' = [''3'', ''8'']"
    by code_simp
  have left: "py_int ''3'' = Some 3"
    by code_simp
  have right: "py_int ''8'' = Some 8"
    by code_simp
  from Autoscale_convert_two_integers [OF pieces left right] pieces left right
  show ?thesis by simp
qed

text \<open>
  C6: an autoscale text of one or two pieces with a piece that is no integer should end
  in the usage error of the validator. With two pieces it does not: for \<open>a,1\<close> the
  handler of the failed conversion fails itself while building the message, and the
  \<open>AttributeError\<close> leaves \<open>convert\<close>.
\<close>

theorem Autoscale_convert_two_pieces_attribute_error:
  "Autoscale_convert ''a,1'' = Inl (AttributeError ''list'' ''join'')"
  by code_simp

section \<open>The platform restricted flag\<close>

text \<open>
  C8: with the flag \<open>-B\<close> set on Windows the conversion fails with the usage error, and
  the command ends with it before the body runs: the process is as it was, nothing has
  been detached and no worker has been made. On another platform, or with the flag not
  set, the conversion returns the value it was given.
\<close>

theorem CeleryBeat_refused_on_windows:
  "(is_win \<and> b \<longrightarrow>
      CeleryBeat_convert is_win (PyBool b) =
        Inl (BadParameter (''-B option does not work on Windows.  '' @
                           ''Please run celery beat as a separate service.''))) \<and>
   (\<not> (is_win \<and> b) \<longrightarrow> CeleryBeat_convert is_win (PyBool b) = Inr (PyBool b)) \<and>
   (IS_WINDOWS ctx \<and> b \<longrightarrow>
      worker_command X parse_args (PyBool b) ctx p =
        (Raised (BadParameter (''-B option does not work on Windows.  '' @
                               ''Please run celery beat as a separate service.'')), p))"
  by (simp add: CeleryBeat_convert_def worker_command_def)

theorem CeleryBeat_refused_on_windows_witness:
  "IS_WINDOWS ((demo_context option_defaults)\<lparr>IS_WINDOWS := True\<rparr>) \<and>
   CeleryBeat_convert True (PyBool True) =
     Inl (BadParameter
       ''-B option does not work on Windows.  Please run celery beat as a separate service.'') \<and>
   CeleryBeat_convert False (PyBool True) = Inr (PyBool True) \<and>
   worker_command demo_externals no_parse (PyBool True)
       ((demo_context option_defaults)\<lparr>IS_WINDOWS := True\<rparr>) demo_process =
     (Raised (BadParameter
        ''-B option does not work on Windows.  Please run celery beat as a separate service.''),
      demo_process)"
  using
    CeleryBeat_refused_on_windows [of True True
      "(demo_context option_defaults)\<lparr>IS_WINDOWS := True\<rparr>" demo_externals no_parse demo_process]
    CeleryBeat_refused_on_windows [of False True
      "(demo_context option_defaults)\<lparr>IS_WINDOWS := True\<rparr>" demo_externals no_parse demo_process]
  by (simp add: demo_context_def)

section \<open>The options registered by the caller\<close>

text \<open>
  C3, as the specification states it: a registered option with the name of a static
  option never replaces the static value. It fails: with a registered option \<open>purge\<close>
  the static value \<open>False\<close> of \<open>purge\<close> is \<open>True\<close> after the merge.
\<close>

theorem extend_kwargs_replaces_static_value:
  "dict_get (kwargs (call_args registered_params)) ''purge'' = Some (PyBool False) \<and>
   (case extend_kwargs registered_parse registered_context (call_args registered_params) of
      Inl e \<Rightarrow> None
    | Inr (kw, ctx) \<Rightarrow> dict_get kw ''purge'') = Some (PyBool True)"
  by code_simp

text \<open>
  C3, amended: the merge is \<open>kwargs.update(user_options)\<close>. After it a name among the
  registered options has the value the second parse gave it last, also where a static
  option has that name; every other name has the value it had before.
\<close>

theorem extend_kwargs_is_update:
  assumes "user_opts ctx \<noteq> []"
    and "parse_args (user_opts ctx) ctx (texts (user_extra_params w)) = Inr (calls, ctx')"
  shows "\<exists>kw. extend_kwargs parse_args ctx w = Inr (kw, ctx') \<and>
           (\<forall>k. dict_get kw k =
              (case map_of (rev calls) k of
                 Some v \<Rightarrow> Some v
               | None \<Rightarrow> dict_get (kwargs w) k))"
  using assms
  by (auto simp: extend_kwargs_def dict_get_def map_of_merged map_add_def split: option.splits)

theorem extend_kwargs_is_update_witness:
  "user_opts registered_context \<noteq> [] \<and>
   (\<exists>ctx'. registered_parse (user_opts registered_context) registered_context
        (texts (user_extra_params (call_args registered_params))) =
      Inr ([(''purge'', PyBool True)], ctx') \<and>
    (\<exists>kw. extend_kwargs registered_parse registered_context (call_args registered_params) =
         Inr (kw, ctx') \<and>
       dict_get kw ''purge'' = Some (PyBool True) \<and>
       dict_get kw ''beat'' = Some (PyBool False)))"
proof -
  let ?ctx' = "registered_context\<lparr>params :=
      dict_setitem (params registered_context) ''purge'' (PyBool True), args := []\<rparr>"
  have registered: "user_opts registered_context \<noteq> []"
    by (simp add: registered_context_def demo_context_def)
  have tail: "texts (user_extra_params (call_args registered_params)) = [''--purge-all'']"
    by code_simp
  have parsed: "registered_parse (user_opts registered_context) registered_context
       (texts (user_extra_params (call_args registered_params))) =
     Inr ([(''purge'', PyBool True)], ?ctx')"
    by (simp add: tail registered_parse_def registered_context_def demo_context_def)
  have beat: "dict_get (kwargs (call_args registered_params)) ''beat'' = Some (PyBool False)"
    by code_simp
  from extend_kwargs_is_update [where parse_args = registered_parse
      and ctx = registered_context and w = "call_args registered_params",
      OF registered parsed] obtain kw where
    kw: "extend_kwargs registered_parse registered_context (call_args registered_params) =
           Inr (kw, ?ctx')"
    and look: "\<And>k. dict_get kw k =
              (case map_of (rev [(''purge'', PyBool True)]) k of
                 Some v \<Rightarrow> Some v
               | None \<Rightarrow> dict_get (kwargs (call_args registered_params)) k)"
    by blast
  have "dict_get kw ''purge'' = Some (PyBool True)"
    by (simp add: look)
  moreover have "dict_get kw ''beat'' = Some (PyBool False)"
    by (simp add: look beat)
  ultimately show ?thesis
    using registered parsed kw by blast
qed

section \<open>The daemonizer\<close>

lemma detach_entered:
  assumes "detached X (Detached (logfile a) (pidfile a) (uid a) (gid a) (umask a) (workdir a)
             (if fakefork p then PyInt 1 else fake a)) = None"
  shows "detach X a p =
     (let pth = (case executable a of None \<Rightarrow> path a | Some x \<Rightarrow> x);
          p2 = p\<lparr>trace := trace p @
                 [Detached (logfile a) (pidfile a) (uid a) (gid a) (umask a) (workdir a)
                    (if fakefork p then PyInt 1 else fake a),
                  Execv pth (pth # argv a)]\<rparr>
      in case execv X pth (pth # argv a) of
           ExecReplaces \<Rightarrow> (Replaced, p2)
         | ExecReturns \<Rightarrow> (Returned (EX_FAILURE X), p2\<lparr>trace := trace p2 @ [DetachedExit]\<rparr>)
         | ExecRaises e \<Rightarrow>
             if is_Exception e then
               (Returned (EX_FAILURE X),
                p2\<lparr>trace := trace p2 @
                  [SetupLogging (case app a of None \<Rightarrow> current_app X | Some x \<Rightarrow> x)
                     ''ERROR'' (logfile a) (hostname a),
                   LogCritical (''Can'' @ [squote] @ ''t exec %r'') (py_join '' '' (pth # argv a)) e,
                   DetachedExit]\<rparr>)
             else (Raised e, p2\<lparr>trace := trace p2 @ [DetachedExit]\<rparr>))"
  using assms by (simp add: detach_def emit_def Let_def split: exec_result.splits)

lemma detach_not_entered:
  assumes "detached X (Detached (logfile a) (pidfile a) (uid a) (gid a) (umask a) (workdir a)
             (if fakefork p then PyInt 1 else fake a)) = Some e"
  shows "detach X a p =
     (Raised e, p\<lparr>trace := trace p @
        [Detached (logfile a) (pidfile a) (uid a) (gid a) (umask a) (workdir a)
           (if fakefork p then PyInt 1 else fake a)]\<rparr>)"
  using assms by (simp add: detach_def emit_def Let_def)

lemma demo_detach_entered:
  "detached demo_externals
     (Detached (logfile a) (pidfile a) (uid a) (gid a) (umask a) (workdir a)
        (if fakefork p then PyInt 1 else fake a)) = None"
  by (simp add: demo_externals_def)

text \<open>
  C7: when \<open>os.execv\<close> raises an exception that \<open>except Exception\<close> catches, as the
  errors of a missing executable and of a failed system call are, \<open>detach\<close> sets up
  logging at the level \<open>ERROR\<close>, logs the command line at the level critical with the
  exception being handled, leaves the context and returns \<open>EX_FAILURE\<close>: nothing is
  raised to the caller.
\<close>

theorem detach_exec_failure_is_logged_and_returned:
  assumes entered: "detached X (Detached (logfile a) (pidfile a) (uid a) (gid a) (umask a)
             (workdir a) (if fakefork p then PyInt 1 else fake a)) = None"
    and target: "pth = (case executable a of None \<Rightarrow> path a | Some x \<Rightarrow> x)"
    and raises: "execv X pth (pth # argv a) = ExecRaises e"
    and caught: "is_Exception e"
  shows "detach X a p =
     (Returned (EX_FAILURE X),
      p\<lparr>trace := trace p @
        [Detached (logfile a) (pidfile a) (uid a) (gid a) (umask a) (workdir a)
           (if fakefork p then PyInt 1 else fake a),
         Execv pth (pth # argv a),
         SetupLogging (case app a of None \<Rightarrow> current_app X | Some x \<Rightarrow> x)
           ''ERROR'' (logfile a) (hostname a),
         LogCritical (''Can'' @ [squote] @ ''t exec %r'') (py_join '' '' (pth # argv a)) e,
         DetachedExit]\<rparr>)
     \<and> is_Exception (FileNotFoundError m) \<and> is_Exception (PermissionError m)
     \<and> is_Exception (OSError m)"
  using raises target caught by (simp add: detach_entered [OF entered] Let_def)

theorem detach_exec_failure_is_logged_and_returned_witness:
  "execv demo_externals ''/usr/bin/python3'' [''/usr/bin/python3'', ''-m'', ''celery'', ''worker''] =
     ExecRaises (FileNotFoundError ''/usr/bin/python3'') \<and>
   is_Exception (FileNotFoundError ''/usr/bin/python3'') \<and>
   fst (detach demo_externals demo_detach_args demo_process) = Returned 1 \<and>
   trace (snd (detach demo_externals demo_detach_args demo_process)) =
     [Detached PyNone PyNone PyNone PyNone PyNone PyNone (PyBool False),
      Execv ''/usr/bin/python3'' [''/usr/bin/python3'', ''-m'', ''celery'', ''worker''],
      SetupLogging ''default'' ''ERROR'' PyNone (PyStr ''celery@host''),
      LogCritical (''Can'' @ [squote] @ ''t exec %r'') ''/usr/bin/python3 -m celery worker''
        (FileNotFoundError ''/usr/bin/python3''),
      DetachedExit]"
proof -
  have target: "''/usr/bin/python3'' =
       (case executable demo_detach_args of None \<Rightarrow> path demo_detach_args | Some x \<Rightarrow> x)"
    by (simp add: demo_detach_args_def)
  have raises: "execv demo_externals ''/usr/bin/python3''
       (''/usr/bin/python3'' # argv demo_detach_args) =
       ExecRaises (FileNotFoundError ''/usr/bin/python3'')"
    by (simp add: demo_externals_def)
  have caught: "is_Exception (FileNotFoundError ''/usr/bin/python3'')"
    by simp
  from detach_exec_failure_is_logged_and_returned
    [where p = demo_process, OF demo_detach_entered target raises caught]
  show ?thesis
    by (simp add: demo_externals_def demo_detach_args_def demo_process_def import_module_def
        fakefork_def)
qed

text \<open>
  C9: with an alternate executable given, the one call of \<open>os.execv\<close> that \<open>detach\<close>
  makes is on that executable, with it as the first argument; no call is made on the
  path the caller supplied, whatever the call on the alternate executable does. (When
  entering the detached context fails, no call is made at all.)
\<close>

theorem detach_execs_the_override:
  assumes "executable a = Some ex"
  shows "execs (drop (length (trace p)) (trace (snd (detach X a p)))) =
           (case detached X (Detached (logfile a) (pidfile a) (uid a) (gid a) (umask a)
                   (workdir a) (if fakefork p then PyInt 1 else fake a)) of
              None \<Rightarrow> [(ex, ex # argv a)]
            | Some e \<Rightarrow> [])
         \<and> (path a \<noteq> ex \<longrightarrow>
              path a \<notin> fst ` set (execs (drop (length (trace p)) (trace (snd (detach X a p))))))"
proof (cases "detached X (Detached (logfile a) (pidfile a) (uid a) (gid a) (umask a) (workdir a)
                   (if fakefork p then PyInt 1 else fake a))")
  case None
  show ?thesis using assms
    by (simp add: detach_entered [OF None] None Let_def split: exec_result.splits)
next
  case (Some e)
  show ?thesis using assms
    by (simp add: detach_not_entered [OF Some] Some)
qed

theorem detach_execs_the_override_witness:
  "executable (demo_detach_args\<lparr>executable := Some ''/opt/venv/bin/python''\<rparr>) =
     Some ''/opt/venv/bin/python'' \<and>
   path (demo_detach_args\<lparr>executable := Some ''/opt/venv/bin/python''\<rparr>) \<noteq> ''/opt/venv/bin/python'' \<and>
   execs (trace (snd (detach demo_externals
       (demo_detach_args\<lparr>executable := Some ''/opt/venv/bin/python''\<rparr>) demo_process))) =
     [(''/opt/venv/bin/python'', [''/opt/venv/bin/python'', ''-m'', ''celery'', ''worker''])] \<and>
   ''/usr/bin/python3'' \<notin> fst ` set (execs (trace (snd (detach demo_externals
       (demo_detach_args\<lparr>executable := Some ''/opt/venv/bin/python''\<rparr>) demo_process))))"
proof -
  let ?a = "demo_detach_args\<lparr>executable := Some ''/opt/venv/bin/python''\<rparr>"
  have given: "executable ?a = Some ''/opt/venv/bin/python''"
    by simp
  have start: "trace demo_process = []"
    by (simp add: demo_process_def import_module_def)
  have other: "path ?a = ''/usr/bin/python3''" "argv ?a = [''-m'', ''celery'', ''worker'']"
    by (simp_all add: demo_detach_args_def)
  from detach_execs_the_override [OF given, of demo_process demo_externals]
  show ?thesis
    by (simp add: start other demo_externals_def)
qed

text \<open>
  C10: the environment is read once, when the module is imported. If \<open>C_FAKEFORK\<close> is
  then set to a text that is not empty, every later call of \<open>detach\<close> hands the fake
  flag 1 to \<open>detached\<close>, whatever \<open>fake\<close> the caller gives, whatever the environment
  has become and whatever has happened in between; setting or removing a variable after
  the import leaves the module global alone, and the environment of the process has no
  influence on what a call of \<open>detach\<close> returns and does.
\<close>

theorem detach_fake_is_fixed_at_import:
  assumes "environ p0 ''C_FAKEFORK'' = Some s" and "s \<noteq> []"
  shows "(\<exists>rest. trace (snd (detach X a ((import_module p0)\<lparr>environ := env, trace := t\<rparr>))) =
            t @ Detached (logfile a) (pidfile a) (uid a) (gid a) (umask a) (workdir a) (PyInt 1)
                # rest)
       \<and> C_FAKEFORK (setenv k v (import_module p0)) = Some s
       \<and> C_FAKEFORK (unsetenv k (import_module p0)) = Some s
       \<and> fst (detach X a (p\<lparr>environ := env\<rparr>)) = fst (detach X a p)
       \<and> trace (snd (detach X a (p\<lparr>environ := env\<rparr>))) = trace (snd (detach X a p))"
proof -
  let ?q = "(import_module p0)\<lparr>environ := env, trace := t\<rparr>"
  have ff: "fakefork ?q"
    using assms by (simp add: fakefork_def import_module_def)
  have one: "\<exists>rest. trace (snd (detach X a ?q)) =
            t @ Detached (logfile a) (pidfile a) (uid a) (gid a) (umask a) (workdir a) (PyInt 1)
                # rest"
    using ff by (simp add: detach_def emit_def Let_def split: option.splits exec_result.splits)
  have two: "C_FAKEFORK (setenv k v (import_module p0)) = Some s"
     "C_FAKEFORK (unsetenv k (import_module p0)) = Some s"
    using assms by (simp_all add: setenv_def unsetenv_def import_module_def)
  have three: "fst (detach X a (p\<lparr>environ := env\<rparr>)) = fst (detach X a p)"
       "trace (snd (detach X a (p\<lparr>environ := env\<rparr>))) = trace (snd (detach X a p))"
    by (simp_all add: detach_def emit_def fakefork_def Let_def
        split: option.splits exec_result.splits)
  from one two three show ?thesis by simp
qed

theorem detach_fake_is_fixed_at_import_witness:
  "environ fakefork_process ''C_FAKEFORK'' = Some ''1'' \<and> ''1'' \<noteq> [] \<and>
   fake demo_detach_args = PyBool False \<and>
   environ (unsetenv ''C_FAKEFORK'' (import_module fakefork_process)) ''C_FAKEFORK'' = None \<and>
   C_FAKEFORK (unsetenv ''C_FAKEFORK'' (import_module fakefork_process)) = Some ''1'' \<and>
   trace (snd (detach demo_externals demo_detach_args
       (unsetenv ''C_FAKEFORK'' (import_module fakefork_process)))) ! 0 =
     Detached PyNone PyNone PyNone PyNone PyNone PyNone (PyInt 1)"
proof -
  have set_at_import: "environ fakefork_process ''C_FAKEFORK'' = Some ''1''"
    by (simp add: fakefork_process_def)
  have not_empty: "''1'' \<noteq> []"
    by simp
  have later: "unsetenv ''C_FAKEFORK'' (import_module fakefork_process) =
      (import_module fakefork_process)\<lparr>environ := (environ fakefork_process)(''C_FAKEFORK'' := None),
         trace := []\<rparr>"
    by (simp add: unsetenv_def import_module_def fakefork_process_def)
  from detach_fake_is_fixed_at_import [where X = demo_externals and a = demo_detach_args
      and env = "(environ fakefork_process)(''C_FAKEFORK'' := None)" and t = "[]"
      and k = "''C_FAKEFORK''" and v = "''0''" and p = fakefork_process,
      OF set_at_import not_empty]
  obtain rest where
    first: "trace (snd (detach demo_externals demo_detach_args
        (unsetenv ''C_FAKEFORK'' (import_module fakefork_process)))) =
      Detached (logfile demo_detach_args) (pidfile demo_detach_args) (uid demo_detach_args)
        (gid demo_detach_args) (umask demo_detach_args) (workdir demo_detach_args) (PyInt 1) # rest"
    and kept: "C_FAKEFORK (unsetenv ''C_FAKEFORK'' (import_module fakefork_process)) = Some ''1''"
    by (auto simp: later)
  have gone: "environ (unsetenv ''C_FAKEFORK'' (import_module fakefork_process)) ''C_FAKEFORK'' = None"
    by (simp add: unsetenv_def)
  from first kept gone set_at_import show ?thesis
    by (simp add: demo_detach_args_def)
qed

section \<open>The argument vector of the detached worker\<close>

text \<open>
  C1: with \<open>--detach\<close> every option left in the dictionary should be encoded in the
  vector handed to \<open>detach\<close>. For \<open>celery worker --purge -D\<close> the option \<open>purge\<close> is
  \<open>True\<close> in \<open>ctx.params\<close>, and the vector that reaches \<open>os.execv\<close> ends after the
  first option, \<open>pool\<close>.
\<close>

theorem worker_detach_encodes_first_option_only:
  "dict_get purge_detach_params ''purge'' = Some (PyBool True) \<and>
   execs (trace (snd (worker demo_externals no_parse (demo_context purge_detach_params)
       (call_args purge_detach_params) demo_process))) =
     [(''/usr/bin/python3'',
       [''/usr/bin/python3'', ''-m'', ''celery'', ''worker'', ''--pool'',
        class_repr ''celery.concurrency.prefork.TaskPool''])]"
  by code_simp

text \<open>
  C2: a boolean option that is \<open>False\<close> should add nothing to the vector. Where the
  flag \<open>purge\<close> with the value \<open>False\<close> is the option the loop processes, the vector
  gets the two tokens \<open>--purge\<close> and \<open>False\<close>.
\<close>

theorem worker_detach_encodes_false_flag:
  "dict_get unset_flag_params ''purge'' = Some (PyBool False) \<and>
   encode_option [''-m'', ''celery'', ''worker''] ''purge'' (PyBool False) =
     [''-m'', ''celery'', ''worker'', ''--purge'', ''False''] \<and>
   execs (trace (snd (worker demo_externals no_parse (demo_context unset_flag_params)
       (call_args unset_flag_params) demo_process))) =
     [(''/usr/bin/python3'',
       [''/usr/bin/python3'', ''-m'', ''celery'', ''worker'', ''--purge'', ''False''])]"
  by code_simp

text \<open>
  C4, as the specification states it: for \<open>--autoscale=10,0 --pool=solo -D\<close> the vector
  handed to the daemonizer holds \<open>--autoscale 10,0 --pool solo --detach\<close>. It does not:
  the vector is \<open>-m celery worker --pool\<close> and the text of the pool class, without a
  token \<open>--detach\<close> and without a token \<open>--autoscale\<close>.
\<close>

theorem worker_detach_autoscale_solo_vector:
  "execs (trace (snd (worker demo_externals no_parse (demo_context autoscale_solo_params)
       (call_args autoscale_solo_params) demo_process))) =
     [(''/usr/bin/python3'',
       [''/usr/bin/python3'', ''-m'', ''celery'', ''worker'', ''--pool'',
        class_repr ''celery.concurrency.solo.TaskPool''])] \<and>
   ''--detach'' \<notin> set [''/usr/bin/python3'', ''-m'', ''celery'', ''worker'', ''--pool'',
        class_repr ''celery.concurrency.solo.TaskPool''] \<and>
   ''--autoscale'' \<notin> set [''/usr/bin/python3'', ''-m'', ''celery'', ''worker'', ''--pool'',
        class_repr ''celery.concurrency.solo.TaskPool'']"
  by code_simp

lemma autoscale_solo_left:
  "(case detach_params autoscale_solo_params of
      Inl e \<Rightarrow> False
    | Inr (um, ex, ps) \<Rightarrow>
        dict_get ps ''detach'' = None \<and>
        dict_get ps ''autoscale'' = Some (PyTuple [PyInt 10, PyInt 0]) \<and>
        dict_get ps ''pool'' = Some (PyObject (class_repr ''celery.concurrency.solo.TaskPool'')))"
  by code_simp

lemma encode_pair:
  "encode_option av ''autoscale'' (PyTuple [PyInt 10, PyInt 0]) =
     av @ [''--autoscale'', ''(10, 0)'']"
  by (simp add: encode_option_def py_str_def str_int_def str_nat.simps)

lemma encode_object: "encode_option av ''pool'' (PyObject s) = av @ [''--pool'', s]"
  by (simp add: encode_option_def py_str_def)

text \<open>
  C4, amended: for \<open>--autoscale=10,0 --pool=solo -D\<close> the autoscale text resolves to the
  pair \<open>(10, 0)\<close>; the options left for the vector hold that pair and the pool class but
  not \<open>detach\<close>, which is taken out with the daemon's other keys, so that no token
  \<open>--detach\<close> is encoded; the encoding of a valued option is \<open>--name\<close> and \<open>str()\<close> of
  the value, for the pair the text \<open>(10, 0)\<close> and for the pool the text of its class.
  Once the detached context is entered, in the forced fake mode as in any other,
  \<open>detach\<close> calls \<open>os.execv\<close>: the process image is replaced when the call succeeds, and
  \<open>EX_FAILURE\<close> is returned when it returns or raises an exception that is caught.
\<close>

theorem worker_detach_autoscale_solo:
  assumes entered: "detached X (Detached (logfile a) (pidfile a) (uid a) (gid a) (umask a)
             (workdir a) (if fakefork p then PyInt 1 else fake a)) = None"
    and target: "pth = (case executable a of None \<Rightarrow> path a | Some x \<Rightarrow> x)"
  shows "Autoscale_convert ''10,0'' = Inr [10, 0] \<and>
     (case detach_params autoscale_solo_params of
        Inl e \<Rightarrow> False
      | Inr (um, ex, ps) \<Rightarrow>
          dict_get ps ''detach'' = None \<and>
          dict_get ps ''autoscale'' = Some (PyTuple [PyInt 10, PyInt 0]) \<and>
          dict_get ps ''pool'' =
            Some (PyObject (class_repr ''celery.concurrency.solo.TaskPool''))) \<and>
     encode_option av ''autoscale'' (PyTuple [PyInt 10, PyInt 0]) =
       av @ [''--autoscale'', ''(10, 0)''] \<and>
     encode_option av ''pool'' (PyObject (class_repr ''celery.concurrency.solo.TaskPool'')) =
       av @ [''--pool'', class_repr ''celery.concurrency.solo.TaskPool''] \<and>
     (execv X pth (pth # argv a) = ExecReplaces \<longrightarrow> fst (detach X a p) = Replaced) \<and>
     (execv X pth (pth # argv a) = ExecReturns \<longrightarrow>
        fst (detach X a p) = Returned (EX_FAILURE X)) \<and>
     (\<forall>e. execv X pth (pth # argv a) = ExecRaises e \<and> is_Exception e \<longrightarrow>
          fst (detach X a p) = Returned (EX_FAILURE X))"
proof -
  have pair: "Autoscale_convert ''10,0'' = Inr [10, 0]"
    by code_simp
  have result:
    "(execv X pth (pth # argv a) = ExecReplaces \<longrightarrow> fst (detach X a p) = Replaced) \<and>
     (execv X pth (pth # argv a) = ExecReturns \<longrightarrow>
        fst (detach X a p) = Returned (EX_FAILURE X)) \<and>
     (\<forall>e. execv X pth (pth # argv a) = ExecRaises e \<and> is_Exception e \<longrightarrow>
          fst (detach X a p) = Returned (EX_FAILURE X))"
    using target by (simp add: detach_entered [OF entered] Let_def)
  from pair autoscale_solo_left encode_pair [of av] encode_object [of av] result
  show ?thesis by simp
qed

theorem worker_detach_autoscale_solo_witness:
  "fakefork (import_module fakefork_process) \<and>
   execv demo_externals ''/usr/bin/python3'' (''/usr/bin/python3'' # argv demo_detach_args) =
     ExecRaises (FileNotFoundError ''/usr/bin/python3'') \<and>
   is_Exception (FileNotFoundError ''/usr/bin/python3'') \<and>
   fst (detach demo_externals demo_detach_args (import_module fakefork_process)) = Returned 1 \<and>
   fst (detach (demo_externals\<lparr>execv := \<lambda>pth av. ExecReplaces\<rparr>) demo_detach_args
          (import_module fakefork_process)) = Replaced \<and>
   fst (detach (demo_externals\<lparr>execv := \<lambda>pth av. ExecReturns\<rparr>) demo_detach_args
          (import_module fakefork_process)) = Returned 1"
proof -
  let ?p = "import_module fakefork_process"
  have forced: "fakefork ?p"
    by (simp add: fakefork_def import_module_def fakefork_process_def)
  have target: "''/usr/bin/python3'' =
       (case executable demo_detach_args of None \<Rightarrow> path demo_detach_args | Some x \<Rightarrow> x)"
    by (simp add: demo_detach_args_def)
  have raises: "execv demo_externals ''/usr/bin/python3''
       (''/usr/bin/python3'' # argv demo_detach_args) =
       ExecRaises (FileNotFoundError ''/usr/bin/python3'')"
    by (simp add: demo_externals_def)
  have entered_replaces: "detached (demo_externals\<lparr>execv := \<lambda>pth av. ExecReplaces\<rparr>)
     (Detached (logfile demo_detach_args) (pidfile demo_detach_args) (uid demo_detach_args)
        (gid demo_detach_args) (umask demo_detach_args) (workdir demo_detach_args)
        (if fakefork ?p then PyInt 1 else fake demo_detach_args)) = None"
    by (simp add: demo_externals_def)
  have entered_returns: "detached (demo_externals\<lparr>execv := \<lambda>pth av. ExecReturns\<rparr>)
     (Detached (logfile demo_detach_args) (pidfile demo_detach_args) (uid demo_detach_args)
        (gid demo_detach_args) (umask demo_detach_args) (workdir demo_detach_args)
        (if fakefork ?p then PyInt 1 else fake demo_detach_args)) = None"
    by (simp add: demo_externals_def)
  have failure: "EX_FAILURE demo_externals = 1"
    by (simp add: demo_externals_def)
  from worker_detach_autoscale_solo [where p = ?p and X = demo_externals,
      OF demo_detach_entered target]
  have a: "fst (detach demo_externals demo_detach_args ?p) = Returned 1"
    using raises failure by simp
  from worker_detach_autoscale_solo [where p = ?p, OF entered_replaces target]
  have b: "fst (detach (demo_externals\<lparr>execv := \<lambda>pth av. ExecReplaces\<rparr>) demo_detach_args ?p) =
      Replaced"
    by simp
  from worker_detach_autoscale_solo [where p = ?p, OF entered_returns target]
  have c: "fst (detach (demo_externals\<lparr>execv := \<lambda>pth av. ExecReturns\<rparr>) demo_detach_args ?p) =
      Returned 1"
    using failure by simp
  from forced raises a b c show ?thesis by simp
qed

end
